theory Spec2Isabelle
  imports Complex_Main
begin

section \<open>Data model (shared/schema.ts)\<close>

text \<open>
  The PostgreSQL enums of the schema are datatypes. Identifiers are \<open>varchar\<close> columns,
  hence strings. A \<open>timestamp\<close> is a number of milliseconds. A \<open>decimal(10,2)\<close> value is
  held as its number of hundredths, so that 250.00 is \<open>25000\<close>. A nullable column has an
  \<open>option\<close> type, \<open>None\<close> being SQL NULL.
\<close>

datatype user_role = Candidate | CompanyRole | Admin

datatype project_status = ProjPending | ProjApproved | ProjActive | ProjCompleted | ProjCancelled

datatype submission_status = SubPending | SubUnderReview | SubApproved | SubRejected

datatype company_status = CoPending | CoApproved | CoRejected

type_synonym timestamp = nat

type_synonym decimal = int

record user =
  u_id :: string
  u_email :: "string option"
  u_firstName :: "string option"
  u_lastName :: "string option"
  u_profileImageUrl :: "string option"
  u_role :: user_role
  u_skills :: "string list option"
  u_experience :: "string option"
  u_portfolioUrl :: "string option"
  u_bio :: "string option"
  u_createdAt :: "timestamp option"
  u_updatedAt :: "timestamp option"

record company =
  c_id :: string
  c_userId :: string
  c_name :: string
  c_description :: "string option"
  c_website :: "string option"
  c_logoUrl :: "string option"
  c_industry :: "string option"
  c_size :: "string option"
  c_status :: company_status
  c_createdAt :: "timestamp option"
  c_updatedAt :: "timestamp option"

record project =
  p_id :: string
  p_companyId :: string
  p_title :: string
  p_description :: string
  p_requirements :: "string option"
  p_skills :: "string list option"
  p_payment :: decimal
  p_difficulty :: "string option"
  p_deadline :: "timestamp option"
  p_maxSubmissions :: "int option"
  p_status :: project_status
  p_createdAt :: "timestamp option"
  p_updatedAt :: "timestamp option"

record submission =
  s_id :: string
  s_projectId :: string
  s_candidateId :: string
  s_content :: string
  s_attachmentUrl :: "string option"
  s_status :: submission_status
  s_feedback :: "string option"
  s_createdAt :: "timestamp option"
  s_updatedAt :: "timestamp option"

record rating =
  r_id :: string
  r_submissionId :: string
  r_candidateId :: string
  r_companyId :: string
  r_score :: int
  r_review :: "string option"
  r_createdAt :: "timestamp option"

record payment =
  pay_id :: string
  pay_submissionId :: string
  pay_candidateId :: string
  pay_companyId :: string
  pay_amount :: decimal
  pay_status :: string
  pay_paidAt :: "timestamp option"
  pay_createdAt :: "timestamp option"

text \<open>
  The database: one list of rows per table, in insertion order. A query without
  \<open>ORDER BY\<close> is read in that order, and \<open>const [row] = await ...\<close> takes its first row.
\<close>

record db =
  users :: "user list"
  companies :: "company list"
  projects :: "project list"
  submissions :: "submission list"
  ratings :: "rating list"
  payments :: "payment list"

text \<open>
  What a request does not determine: the instant read by \<open>new Date()\<close> and by the
  columns' \<open>defaultNow()\<close> (one instant per request), and the values that
  \<open>gen_random_uuid()\<close> yields for the rows inserted (\<open>uuid\<close> for the first insert of the
  request, \<open>uuid2\<close> for a second one). Each \<open>create...\<close> function below takes the
  generated id as its first argument.
\<close>

record env =
  now :: timestamp
  uuid :: string
  uuid2 :: string

text \<open>
  A key of a JSON request body (\<open>req.body\<close> is untyped and not validated): missing
  (JavaScript \<open>undefined\<close>), \<open>null\<close>, or a value.
\<close>

datatype 'a field = Absent | Null | Val 'a

text \<open>A value bound for a nullable column: \<open>undefined\<close> and \<open>null\<close> both store NULL.\<close>

fun nullable :: "'a field \<Rightarrow> 'a option" where
  "nullable (Val v) = Some v"
| "nullable _ = None"

text \<open>
  Drizzle's \<open>.set({...})\<close> leaves out the keys whose value is \<open>undefined\<close>; \<open>null\<close>
  stores NULL.
\<close>

fun set_nullable :: "'a field \<Rightarrow> 'a option \<Rightarrow> 'a option" where
  "set_nullable Absent old = old"
| "set_nullable Null old = None"
| "set_nullable (Val v) old = Some v"

fun set_column :: "'a option \<Rightarrow> 'a \<Rightarrow> 'a" where
  "set_column None old = old"
| "set_column (Some v) old = v"

text \<open>
  The errors the database raises on an insert: a NOT NULL column without a value, a
  foreign key without its row, a primary key already present, a number outside the
  column's type (\<open>integer\<close> is 32 bits, \<open>decimal(10,2)\<close> has 8 digits before the point).
\<close>

datatype db_error = NotNullViolation | ForeignKeyViolation | UniqueViolation | NumericOutOfRange

definition int4_ok :: "int \<Rightarrow> bool" where
  "int4_ok n = (- 2147483648 \<le> n \<and> n \<le> 2147483647)"

definition decimal_ok :: "decimal \<Rightarrow> bool" where
  "decimal_ok d = (- 10000000000 < d \<and> d < 10000000000)"

section \<open>Data access layer (server/storage.ts)\<close>

subsection \<open>Users\<close>

definition getUser :: "db \<Rightarrow> string \<Rightarrow> user option" where
  "getUser s i = find (\<lambda>u. u_id u = i) (users s)"

text \<open>
  \<open>Partial<User>\<close>, with the keys that the callers in routes.ts pass. \<open>role\<close> is a
  NOT NULL column, the other six are nullable.
\<close>

record user_updates =
  uu_firstName :: "string field"
  uu_lastName :: "string field"
  uu_bio :: "string field"
  uu_skills :: "string list field"
  uu_experience :: "string field"
  uu_portfolioUrl :: "string field"
  uu_role :: "user_role option"

definition apply_user_updates :: "user_updates \<Rightarrow> timestamp \<Rightarrow> user \<Rightarrow> user" where
  "apply_user_updates up t u =
     u\<lparr>u_firstName := set_nullable (uu_firstName up) (u_firstName u),
       u_lastName := set_nullable (uu_lastName up) (u_lastName u),
       u_bio := set_nullable (uu_bio up) (u_bio u),
       u_skills := set_nullable (uu_skills up) (u_skills u),
       u_experience := set_nullable (uu_experience up) (u_experience u),
       u_portfolioUrl := set_nullable (uu_portfolioUrl up) (u_portfolioUrl u),
       u_role := set_column (uu_role up) (u_role u),
       u_updatedAt := Some t\<rparr>"

definition updateUserProfile :: "env \<Rightarrow> db \<Rightarrow> string \<Rightarrow> user_updates \<Rightarrow> user option \<times> db" where
  "updateUserProfile e s i up =
     (let s' = s\<lparr>users := map (\<lambda>u. if u_id u = i then apply_user_updates up (now e) u else u) (users s)\<rparr>
      in (getUser s' i, s'))"

subsection \<open>Companies\<close>

definition getCompany :: "db \<Rightarrow> string \<Rightarrow> company option" where
  "getCompany s i = find (\<lambda>c. c_id c = i) (companies s)"

definition getCompanyByUserId :: "db \<Rightarrow> string \<Rightarrow> company option" where
  "getCompanyByUserId s uid = find (\<lambda>c. c_userId c = uid) (companies s)"



text \<open>\<open>Partial<Company>\<close>, with the key the admin review passes.\<close>

record company_updates =
  cu_status :: "company_status option"

definition updateCompany :: "env \<Rightarrow> db \<Rightarrow> string \<Rightarrow> company_updates \<Rightarrow> company option \<times> db" where
  "updateCompany e s i up =
     (let s' = s\<lparr>companies := map (\<lambda>c. if c_id c = i
                   then c\<lparr>c_status := set_column (cu_status up) (c_status c), c_updatedAt := Some (now e)\<rparr>
                   else c) (companies s)\<rparr>
      in (getCompany s' i, s'))"

subsection \<open>Projects\<close>

definition getProject :: "db \<Rightarrow> string \<Rightarrow> project option" where
  "getProject s i = find (\<lambda>p. p_id p = i) (projects s)"

record insert_project =
  ip_companyId :: string
  ip_title :: "string field"
  ip_description :: "string field"
  ip_requirements :: "string field"
  ip_skills :: "string list field"
  ip_payment :: "decimal field"
  ip_difficulty :: "string field"
  ip_deadline :: "timestamp option"
  ip_maxSubmissions :: "int field"
  ip_status :: project_status

text \<open>
  \<open>difficulty\<close> and \<open>maxSubmissions\<close> have a column default, used when the key is
  \<open>undefined\<close>.
\<close>

fun with_default :: "'a \<Rightarrow> 'a field \<Rightarrow> 'a option" where
  "with_default d Absent = Some d"
| "with_default d Null = None"
| "with_default d (Val v) = Some v"

definition createProject :: "string \<Rightarrow> env \<Rightarrow> db \<Rightarrow> insert_project \<Rightarrow> db_error + (project \<times> db)" where
  "createProject new_id e s ip =
     (case (ip_title ip, ip_description ip, ip_payment ip) of
        (Val t, Val d, Val pay) \<Rightarrow>
          if \<not> decimal_ok pay then Inl NumericOutOfRange
          else if (case ip_maxSubmissions ip of Val m \<Rightarrow> \<not> int4_ok m | _ \<Rightarrow> False) then Inl NumericOutOfRange
          else if ip_companyId ip \<notin> set (map c_id (companies s)) then Inl ForeignKeyViolation
          else if new_id \<in> set (map p_id (projects s)) then Inl UniqueViolation
          else
            (let created = \<lparr>p_id = new_id, p_companyId = ip_companyId ip, p_title = t,
                   p_description = d,
                   p_requirements = nullable (ip_requirements ip),
                   p_skills = nullable (ip_skills ip),
                   p_payment = pay,
                   p_difficulty = with_default ''intermediate'' (ip_difficulty ip),
                   p_deadline = ip_deadline ip,
                   p_maxSubmissions = with_default 10 (ip_maxSubmissions ip),
                   p_status = ip_status ip,
                   p_createdAt = Some (now e), p_updatedAt = Some (now e)\<rparr>
             in Inr (created, s\<lparr>projects := projects s @ [created]\<rparr>))
      | _ \<Rightarrow> Inl NotNullViolation)"

record project_updates =
  pu_status :: "project_status option"

definition updateProject :: "env \<Rightarrow> db \<Rightarrow> string \<Rightarrow> project_updates \<Rightarrow> project option \<times> db" where
  "updateProject e s i up =
     (let s' = s\<lparr>projects := map (\<lambda>p. if p_id p = i
                   then p\<lparr>p_status := set_column (pu_status up) (p_status p), p_updatedAt := Some (now e)\<rparr>
                   else p) (projects s)\<rparr>
      in (getProject s' i, s'))"

subsection \<open>Submissions\<close>

definition getSubmission :: "db \<Rightarrow> string \<Rightarrow> submission option" where
  "getSubmission s i = find (\<lambda>x. s_id x = i) (submissions s)"

definition getSubmissionByProjectAndCandidate :: "db \<Rightarrow> string \<Rightarrow> string \<Rightarrow> submission option" where
  "getSubmissionByProjectAndCandidate s pid cid =
     find (\<lambda>x. s_projectId x = pid \<and> s_candidateId x = cid) (submissions s)"

record insert_submission =
  is_projectId :: string
  is_candidateId :: string
  is_content :: "string field"
  is_attachmentUrl :: "string field"
  is_status :: submission_status

definition createSubmission :: "string \<Rightarrow> env \<Rightarrow> db \<Rightarrow> insert_submission \<Rightarrow> db_error + (submission \<times> db)" where
  "createSubmission new_id e s ins =
     (case is_content ins of
        Val c \<Rightarrow>
          if is_projectId ins \<notin> set (map p_id (projects s)) then Inl ForeignKeyViolation
          else if is_candidateId ins \<notin> set (map u_id (users s)) then Inl ForeignKeyViolation
          else if new_id \<in> set (map s_id (submissions s)) then Inl UniqueViolation
          else
            (let created = \<lparr>s_id = new_id, s_projectId = is_projectId ins,
                   s_candidateId = is_candidateId ins, s_content = c,
                   s_attachmentUrl = nullable (is_attachmentUrl ins),
                   s_status = is_status ins, s_feedback = None,
                   s_createdAt = Some (now e), s_updatedAt = Some (now e)\<rparr>
             in Inr (created, s\<lparr>submissions := submissions s @ [created]\<rparr>))
      | _ \<Rightarrow> Inl NotNullViolation)"

record submission_updates =
  su_status :: "submission_status option"
  su_feedback :: "string field"

definition updateSubmission :: "env \<Rightarrow> db \<Rightarrow> string \<Rightarrow> submission_updates \<Rightarrow> submission option \<times> db" where
  "updateSubmission e s i up =
     (let s' = s\<lparr>submissions := map (\<lambda>x. if s_id x = i
                   then x\<lparr>s_status := set_column (su_status up) (s_status x),
                          s_feedback := set_nullable (su_feedback up) (s_feedback x),
                          s_updatedAt := Some (now e)\<rparr>
                   else x) (submissions s)\<rparr>
      in (getSubmission s' i, s'))"

subsection \<open>Ratings and payments\<close>

record insert_rating =
  ir_submissionId :: string
  ir_candidateId :: string
  ir_companyId :: string
  ir_score :: int
  ir_review :: "string field"

definition createRating :: "string \<Rightarrow> env \<Rightarrow> db \<Rightarrow> insert_rating \<Rightarrow> db_error + (rating \<times> db)" where
  "createRating new_id e s ir =
     (if \<not> int4_ok (ir_score ir) then Inl NumericOutOfRange
      else if ir_submissionId ir \<notin> set (map s_id (submissions s)) then Inl ForeignKeyViolation
      else if ir_candidateId ir \<notin> set (map u_id (users s)) then Inl ForeignKeyViolation
      else if ir_companyId ir \<notin> set (map c_id (companies s)) then Inl ForeignKeyViolation
      else if new_id \<in> set (map r_id (ratings s)) then Inl UniqueViolation
      else
        (let created = \<lparr>r_id = new_id, r_submissionId = ir_submissionId ir,
               r_candidateId = ir_candidateId ir, r_companyId = ir_companyId ir,
               r_score = ir_score ir, r_review = nullable (ir_review ir),
               r_createdAt = Some (now e)\<rparr>
         in Inr (created, s\<lparr>ratings := ratings s @ [created]\<rparr>)))"

record insert_payment =
  ipay_submissionId :: string
  ipay_candidateId :: string
  ipay_companyId :: string
  ipay_amount :: decimal
  ipay_status :: string
  ipay_paidAt :: "timestamp option"

definition createPayment :: "string \<Rightarrow> env \<Rightarrow> db \<Rightarrow> insert_payment \<Rightarrow> db_error + (payment \<times> db)" where
  "createPayment new_id e s ip =
     (if \<not> decimal_ok (ipay_amount ip) then Inl NumericOutOfRange
      else if ipay_submissionId ip \<notin> set (map s_id (submissions s)) then Inl ForeignKeyViolation
      else if ipay_candidateId ip \<notin> set (map u_id (users s)) then Inl ForeignKeyViolation
      else if ipay_companyId ip \<notin> set (map c_id (companies s)) then Inl ForeignKeyViolation
      else if new_id \<in> set (map pay_id (payments s)) then Inl UniqueViolation
      else
        (let created = \<lparr>pay_id = new_id, pay_submissionId = ipay_submissionId ip,
               pay_candidateId = ipay_candidateId ip, pay_companyId = ipay_companyId ip,
               pay_amount = ipay_amount ip, pay_status = ipay_status ip,
               pay_paidAt = ipay_paidAt ip, pay_createdAt = Some (now e)\<rparr>
         in Inr (created, s\<lparr>payments := payments s @ [created]\<rparr>)))"

subsection \<open>Statistics\<close>

text \<open>
  SQL \<open>SUM\<close> and \<open>AVG\<close> are NULL over no row, and \<open>COALESCE(x, 0)\<close> is 0 for NULL. The
  average is an exact rational here; the rounding of \<open>Number(...)\<close> to a double is not
  modelled. The JavaScript \<open>x || 0\<close> around each aggregate changes nothing: it replaces a
  missing or zero value by zero.
\<close>

definition sql_sum :: "int list \<Rightarrow> int option" where
  "sql_sum xs = (if xs = [] then None else Some (sum_list xs))"

definition sql_avg :: "int list \<Rightarrow> rat option" where
  "sql_avg xs = (if xs = [] then None else Some (of_int (sum_list xs) / of_nat (length xs)))"

fun coalesce :: "'a option \<Rightarrow> 'a \<Rightarrow> 'a" where
  "coalesce None d = d"
| "coalesce (Some v) d = v"

record candidate_stats =
  totalSubmissions :: nat
  completedProjects :: nat
  totalEarnings :: decimal
  averageRating :: rat

definition getCandidateStats :: "db \<Rightarrow> string \<Rightarrow> candidate_stats" where
  "getCandidateStats s candidateId =
     \<lparr>totalSubmissions = length (filter (\<lambda>x. s_candidateId x = candidateId) (submissions s)),
      completedProjects =
        length (filter (\<lambda>x. s_candidateId x = candidateId \<and> s_status x = SubApproved) (submissions s)),
      totalEarnings =
        coalesce (sql_sum (map pay_amount
          (filter (\<lambda>p. pay_candidateId p = candidateId \<and> pay_status p = ''paid'') (payments s)))) 0,
      averageRating =
        coalesce (sql_avg (map r_score (filter (\<lambda>r. r_candidateId r = candidateId) (ratings s)))) 0\<rparr>"

section \<open>Request handlers (server/routes.ts)\<close>

text \<open>
  A handler takes the database and returns its answer with the database it leaves: a
  JSON body (status 200), or a status code with a message. An exception of the data
  layer is caught by the handler's \<open>catch\<close>, which answers 500; what was written before
  the failing statement stays written, since no handler opens a transaction.
  \<open>isAuthenticated\<close> is outside this development: a handler behind it is given the
  caller's id, \<open>req.user.claims.sub\<close>.
\<close>

datatype 'a response = Json 'a | Status nat string

datatype success = Success

text \<open>
  JavaScript truthiness of a body key that holds a boolean: \<open>undefined\<close> and \<open>null\<close> are
  falsy.
\<close>

fun truthy :: "bool field \<Rightarrow> bool" where
  "truthy (Val b) = b"
| "truthy _ = False"

subsection \<open>Role gate\<close>

definition requireRole :: "user_role list \<Rightarrow> db \<Rightarrow> string option \<Rightarrow> (nat \<times> string) + user" where
  "requireRole allowedRoles s sub =
     (case sub of
        None \<Rightarrow> Inl (401, ''Unauthorized'')
      | Some userId \<Rightarrow>
          if userId = [] then Inl (401, ''Unauthorized'')
          else (case getUser s userId of
                  None \<Rightarrow> Inl (401, ''User not found'')
                | Some user \<Rightarrow>
                    if u_role user \<notin> set allowedRoles then Inl (403, ''Insufficient permissions'')
                    else Inr user))"

subsection \<open>PATCH /api/profile\<close>

text \<open>
  The body may hold any key; the handler reads six of them. \<open>role\<close>, \<open>email\<close> and \<open>id\<close>
  stand for the keys it does not read.
\<close>

record profile_body =
  prb_firstName :: "string field"
  prb_lastName :: "string field"
  prb_bio :: "string field"
  prb_skills :: "string list field"
  prb_experience :: "string field"
  prb_portfolioUrl :: "string field"
  prb_role :: "user_role field"
  prb_email :: "string field"
  prb_id :: "string field"

definition patch_profile :: "env \<Rightarrow> db \<Rightarrow> string \<Rightarrow> profile_body \<Rightarrow> user option response \<times> db" where
  "patch_profile e s userId body =
     (case updateUserProfile e s userId
             \<lparr>uu_firstName = prb_firstName body, uu_lastName = prb_lastName body,
              uu_bio = prb_bio body, uu_skills = prb_skills body,
              uu_experience = prb_experience body, uu_portfolioUrl = prb_portfolioUrl body,
              uu_role = None\<rparr> of
        (user, s') \<Rightarrow> (Json user, s'))"

subsection \<open>POST /api/projects/:id/submissions\<close>

record submission_body =
  sb_content :: "string field"
  sb_attachmentUrl :: "string field"

definition post_projects_submissions ::
  "env \<Rightarrow> db \<Rightarrow> string \<Rightarrow> string \<Rightarrow> submission_body \<Rightarrow> submission response \<times> db" where
  "post_projects_submissions e s userId projectId body =
     (case getProject s projectId of
        None \<Rightarrow> (Status 400 ''Project not available for submissions'', s)
      | Some project \<Rightarrow>
          if p_status project \<noteq> ProjActive
          then (Status 400 ''Project not available for submissions'', s)
          else (case getSubmissionByProjectAndCandidate s projectId userId of
                  Some existingSubmission \<Rightarrow>
                    (Status 400 ''You have already submitted to this project'', s)
                | None \<Rightarrow>
                    (case createSubmission (uuid e) e s
                            \<lparr>is_projectId = projectId, is_candidateId = userId,
                             is_content = sb_content body,
                             is_attachmentUrl = sb_attachmentUrl body,
                             is_status = SubPending\<rparr> of
                       Inl err \<Rightarrow> (Status 500 ''Failed to create submission'', s)
                     | Inr (submission, s') \<Rightarrow> (Json submission, s'))))"

subsection \<open>POST /api/company/profile\<close>



subsection \<open>POST /api/company/projects\<close>

text \<open>
  \<open>deadline\<close> is a date string in the body; \<open>new Date(deadline)\<close> is modelled for strings
  that parse, as the instant they denote.
\<close>

record project_body =
  pb_title :: "string field"
  pb_description :: "string field"
  pb_requirements :: "string field"
  pb_skills :: "string list field"
  pb_payment :: "decimal field"
  pb_difficulty :: "string field"
  pb_deadline :: "timestamp field"
  pb_maxSubmissions :: "int field"

definition post_company_projects ::
  "env \<Rightarrow> db \<Rightarrow> string \<Rightarrow> project_body \<Rightarrow> project response \<times> db" where
  "post_company_projects e s userId body =
     (case getCompanyByUserId s userId of
        None \<Rightarrow> (Status 404 ''Company not found'', s)
      | Some company \<Rightarrow>
          if c_status company \<noteq> CoApproved
          then (Status 403 ''Company must be approved to post projects'', s)
          else (case createProject (uuid e) e s
                       \<lparr>ip_companyId = c_id company, ip_title = pb_title body,
                        ip_description = pb_description body,
                        ip_requirements = pb_requirements body,
                        ip_skills = pb_skills body, ip_payment = pb_payment body,
                        ip_difficulty = pb_difficulty body,
                        ip_deadline = nullable (pb_deadline body),
                        ip_maxSubmissions = pb_maxSubmissions body,
                        ip_status = ProjPending\<rparr> of
                  Inl err \<Rightarrow> (Status 500 ''Failed to create project'', s)
                | Inr (project, s') \<Rightarrow> (Json project, s')))"

subsection \<open>POST /api/company/submissions/:id/review\<close>

record review_body =
  rb_approved :: "bool field"
  rb_rating :: "int field"
  rb_feedback :: "string field"

text \<open>
  The \<open>if (ratingScore) { await storage.createRating(...) }\<close> of the handler. The body's
  rating is taken to be an integer when present; a number is truthy unless it is 0, and
  \<open>undefined\<close> and \<open>null\<close> are falsy.
\<close>

definition review_rating ::
  "env \<Rightarrow> db \<Rightarrow> string \<Rightarrow> submission \<Rightarrow> company \<Rightarrow> review_body \<Rightarrow> db_error + db" where
  "review_rating e s submissionId submission company body =
     (case rb_rating body of
        Val ratingScore \<Rightarrow>
          if ratingScore \<noteq> 0
          then (case createRating (uuid e) e s
                       \<lparr>ir_submissionId = submissionId,
                        ir_candidateId = s_candidateId submission,
                        ir_companyId = c_id company,
                        ir_score = ratingScore,
                        ir_review = rb_feedback body\<rparr> of
                  Inl err \<Rightarrow> Inl err
                | Inr (_, s') \<Rightarrow> Inr s')
          else Inr s
      | _ \<Rightarrow> Inr s)"

definition post_company_submissions_review ::
  "env \<Rightarrow> db \<Rightarrow> string \<Rightarrow> string \<Rightarrow> review_body \<Rightarrow> success response \<times> db" where
  "post_company_submissions_review e s userId submissionId body =
     (case getCompanyByUserId s userId of
        None \<Rightarrow> (Status 404 ''Company not found'', s)
      | Some company \<Rightarrow>
          (case getSubmission s submissionId of
             None \<Rightarrow> (Status 404 ''Submission not found'', s)
           | Some submission \<Rightarrow>
               (case getProject s (s_projectId submission) of
                  None \<Rightarrow> (Status 403 ''Not authorized to review this submission'', s)
                | Some project \<Rightarrow>
                    if p_companyId project \<noteq> c_id company
                    then (Status 403 ''Not authorized to review this submission'', s)
                    else
                      (case updateSubmission e s submissionId
                              \<lparr>su_status = Some (if truthy (rb_approved body)
                                                  then SubApproved else SubRejected),
                               su_feedback = rb_feedback body\<rparr> of
                         (_, s1) \<Rightarrow>
                           if truthy (rb_approved body)
                           then (case review_rating e s1 submissionId submission company body of
                                   Inl err \<Rightarrow> (Status 500 ''Failed to review submission'', s1)
                                 | Inr s2 \<Rightarrow>
                                     (case createPayment (uuid2 e) e s2
                                             \<lparr>ipay_submissionId = submissionId,
                                              ipay_candidateId = s_candidateId submission,
                                              ipay_companyId = c_id company,
                                              ipay_amount = p_payment project,
                                              ipay_status = ''paid'',
                                              ipay_paidAt = Some (now e)\<rparr> of
                                        Inl err \<Rightarrow> (Status 500 ''Failed to review submission'', s2)
                                      | Inr (_, s3) \<Rightarrow> (Json Success, s3)))
                           else (Json Success, s1)))))"

subsection \<open>POST /api/admin/companies/:id/review and POST /api/admin/projects/:id/review\<close>

text \<open>
  Both are behind \<open>requireRole(["admin"])\<close>, which is given \<open>req.user?.claims?.sub\<close>, a
  string or nothing.
\<close>

definition post_admin_companies_review ::
  "env \<Rightarrow> db \<Rightarrow> string option \<Rightarrow> string \<Rightarrow> bool field \<Rightarrow> success response \<times> db" where
  "post_admin_companies_review e s sub companyId approved =
     (case requireRole [Admin] s sub of
        Inl (code, message) \<Rightarrow> (Status code message, s)
      | Inr dbUser \<Rightarrow>
          (case updateCompany e s companyId
                  \<lparr>cu_status = Some (if truthy approved then CoApproved else CoRejected)\<rparr> of
             (_, s') \<Rightarrow> (Json Success, s')))"

definition post_admin_projects_review ::
  "env \<Rightarrow> db \<Rightarrow> string option \<Rightarrow> string \<Rightarrow> bool field \<Rightarrow> success response \<times> db" where
  "post_admin_projects_review e s sub projectId approved =
     (case requireRole [Admin] s sub of
        Inl (code, message) \<Rightarrow> (Status code message, s)
      | Inr dbUser \<Rightarrow>
          (case updateProject e s projectId
                  \<lparr>pu_status = Some (if truthy approved then ProjActive else ProjCancelled)\<rparr> of
             (_, s') \<Rightarrow> (Json Success, s')))"

section \<open>A run of the marketplace\<close>

text \<open>
  The scenario of the specification: company A, approved, owns the active project
  "Build landing page" paying 250.00; candidate X submits "done"; company A reviews it.
\<close>

definition blank_user :: user where
  "blank_user =
     \<lparr>u_id = [], u_email = None, u_firstName = None, u_lastName = None,
      u_profileImageUrl = None, u_role = Candidate, u_skills = None, u_experience = None,
      u_portfolioUrl = None, u_bio = None, u_createdAt = Some 1, u_updatedAt = Some 1\<rparr>"

definition owner_a :: user where
  "owner_a = blank_user\<lparr>u_id := ''user-a'', u_email := Some ''a@example.org'', u_role := CompanyRole\<rparr>"

definition candidate_x :: user where
  "candidate_x = blank_user\<lparr>u_id := ''user-x'', u_email := Some ''x@example.org''\<rparr>"

definition admin_r :: user where
  "admin_r = blank_user\<lparr>u_id := ''user-r'', u_email := Some ''r@example.org'', u_role := Admin\<rparr>"

definition company_a :: company where
  "company_a =
     \<lparr>c_id = ''company-a'', c_userId = ''user-a'', c_name = ''A'', c_description = None,
      c_website = None, c_logoUrl = None, c_industry = None, c_size = None,
      c_status = CoApproved, c_createdAt = Some 2, c_updatedAt = Some 3\<rparr>"

definition landing_page :: project where
  "landing_page =
     \<lparr>p_id = ''project-1'', p_companyId = ''company-a'', p_title = ''Build landing page'',
      p_description = ''A landing page'', p_requirements = None, p_skills = None,
      p_payment = 25000, p_difficulty = Some ''intermediate'', p_deadline = None,
      p_maxSubmissions = Some 10, p_status = ProjActive,
      p_createdAt = Some 4, p_updatedAt = Some 5\<rparr>"

definition market :: db where
  "market =
     \<lparr>users = [owner_a, candidate_x, admin_r], companies = [company_a],
      projects = [landing_page], submissions = [], ratings = [], payments = []\<rparr>"

definition request_env :: "timestamp \<Rightarrow> string \<Rightarrow> string \<Rightarrow> env" where
  "request_env t i j = \<lparr>now = t, uuid = i, uuid2 = j\<rparr>"

definition done_body :: submission_body where
  "done_body = \<lparr>sb_content = Val ''done'', sb_attachmentUrl = Absent\<rparr>"

definition market_submitted :: db where
  "market_submitted =
     snd (post_projects_submissions (request_env 10 ''submission-1'' []) market
            ''user-x'' ''project-1'' done_body)"

definition pending_submission :: submission where
  "pending_submission =
     \<lparr>s_id = ''submission-1'', s_projectId = ''project-1'', s_candidateId = ''user-x'',
      s_content = ''done'', s_attachmentUrl = None, s_status = SubPending, s_feedback = None,
      s_createdAt = Some 10, s_updatedAt = Some 10\<rparr>"

definition no_rating_review :: review_body where
  "no_rating_review = \<lparr>rb_approved = Val True, rb_rating = Absent, rb_feedback = Absent\<rparr>"

definition great_review :: "int \<Rightarrow> review_body" where
  "great_review n = \<lparr>rb_approved = Val True, rb_rating = Val n, rb_feedback = Val ''great''\<rparr>"

definition market_reviewed :: db where
  "market_reviewed =
     snd (post_company_submissions_review (request_env 20 ''rating-1'' ''payment-1'')
            market_submitted ''user-a'' ''submission-1'' (great_review 5))"

definition market_rejected :: db where
  "market_rejected =
     snd (post_admin_companies_review (request_env 40 [] []) market (Some ''user-r'')
            ''company-a'' (Val False))"

definition landing_body :: project_body where
  "landing_body =
     \<lparr>pb_title = Val ''Build landing page'', pb_description = Val ''A landing page'',
      pb_requirements = Absent, pb_skills = Absent, pb_payment = Val 25000,
      pb_difficulty = Absent, pb_deadline = Absent, pb_maxSubmissions = Absent\<rparr>"



definition escalation :: profile_body where
  "escalation =
     \<lparr>prb_firstName = Val ''Xavier'', prb_lastName = Null, prb_bio = Absent,
      prb_skills = Val [''css''], prb_experience = Absent, prb_portfolioUrl = Absent,
      prb_role = Val Admin, prb_email = Val ''root@example.org'', prb_id = Val ''user-r''\<rparr>"

section \<open>Sequences of submission requests\<close>




section \<open>Proofs\<close>

lemmas market_base = blank_user_def owner_a_def candidate_x_def admin_r_def company_a_def
  landing_page_def market_def request_env_def

lemmas review_defs = post_company_submissions_review_def review_rating_def
  getCompanyByUserId_def getSubmission_def getProject_def updateSubmission_def
  createRating_def createPayment_def int4_ok_def decimal_ok_def Let_def

subsection \<open>What an insert returns\<close>



lemma createProject_Inr:
  "createProject i e s ip = Inr (proj, s') \<Longrightarrow>
   p_status proj = ip_status ip \<and> p_companyId proj = ip_companyId ip \<and>
   projects s' = projects s @ [proj]"
  by (auto simp: createProject_def Let_def split: field.splits if_splits)

lemma createSubmission_Inr:
  "createSubmission i e s ins = Inr (row, s') \<Longrightarrow>
   s_status row = is_status ins \<and> s_projectId row = is_projectId ins \<and>
   s_candidateId row = is_candidateId ins \<and> s' = s\<lparr>submissions := submissions s @ [row]\<rparr>"
  by (auto simp: createSubmission_def Let_def split: field.splits if_splits)

lemma createPayment_Inr:
  "createPayment i e s ip = Inr (pay, s') \<Longrightarrow>
   payments s' = payments s @ [pay] \<and> pay_amount pay = ipay_amount ip \<and>
   pay_status pay = ipay_status ip \<and> pay_paidAt pay = ipay_paidAt ip \<and>
   pay_submissionId pay = ipay_submissionId ip"
  by (auto simp: createPayment_def Let_def split: if_splits)

lemma updateSubmission_frame:
  "updateSubmission e s i up = (r, s1) \<Longrightarrow> payments s1 = payments s \<and> projects s1 = projects s"
  by (auto simp: updateSubmission_def Let_def)

lemma review_rating_frame:
  "review_rating e s i sub co body = Inr s2 \<Longrightarrow> payments s2 = payments s"
  by (auto simp: review_rating_def createRating_def Let_def
      split: field.splits if_splits sum.splits)

subsection \<open>The run of the marketplace, evaluated\<close>

lemma submit_done:
  "post_projects_submissions (request_env 10 ''submission-1'' []) market
      ''user-x'' ''project-1'' done_body =
     (Json \<lparr>s_id = ''submission-1'', s_projectId = ''project-1'', s_candidateId = ''user-x'',
        s_content = ''done'', s_attachmentUrl = None, s_status = SubPending, s_feedback = None,
        s_createdAt = Some 10, s_updatedAt = Some 10\<rparr>,
      market\<lparr>submissions :=
        [\<lparr>s_id = ''submission-1'', s_projectId = ''project-1'', s_candidateId = ''user-x'',
          s_content = ''done'', s_attachmentUrl = None, s_status = SubPending,
          s_feedback = None, s_createdAt = Some 10, s_updatedAt = Some 10\<rparr>]\<rparr>)"
  by (simp add: market_base done_body_def post_projects_submissions_def getProject_def
      getSubmissionByProjectAndCandidate_def createSubmission_def Let_def)

lemma market_submitted_db:
  "market_submitted = market\<lparr>submissions :=
        [\<lparr>s_id = ''submission-1'', s_projectId = ''project-1'', s_candidateId = ''user-x'',
          s_content = ''done'', s_attachmentUrl = None, s_status = SubPending,
          s_feedback = None, s_createdAt = Some 10, s_updatedAt = Some 10\<rparr>]\<rparr>"
  by (simp add: market_submitted_def submit_done)

lemma first_review:
  "post_company_submissions_review (request_env 20 ''rating-1'' ''payment-1'') market_submitted
      ''user-a'' ''submission-1'' (great_review n) =
   (if int4_ok n then
      (Json Success,
       market\<lparr>submissions :=
          [\<lparr>s_id = ''submission-1'', s_projectId = ''project-1'', s_candidateId = ''user-x'',
            s_content = ''done'', s_attachmentUrl = None, s_status = SubApproved,
            s_feedback = Some ''great'', s_createdAt = Some 10, s_updatedAt = Some 20\<rparr>],
         ratings := (if n = 0 then [] else
          [\<lparr>r_id = ''rating-1'', r_submissionId = ''submission-1'',
            r_candidateId = ''user-x'', r_companyId = ''company-a'', r_score = n,
            r_review = Some ''great'', r_createdAt = Some 20\<rparr>]),
         payments :=
          [\<lparr>pay_id = ''payment-1'', pay_submissionId = ''submission-1'',
            pay_candidateId = ''user-x'', pay_companyId = ''company-a'', pay_amount = 25000,
            pay_status = ''paid'', pay_paidAt = Some 20, pay_createdAt = Some 20\<rparr>]\<rparr>)
    else
      (Status 500 ''Failed to review submission'',
       market\<lparr>submissions :=
          [\<lparr>s_id = ''submission-1'', s_projectId = ''project-1'', s_candidateId = ''user-x'',
            s_content = ''done'', s_attachmentUrl = None, s_status = SubApproved,
            s_feedback = Some ''great'', s_createdAt = Some 10, s_updatedAt = Some 20\<rparr>]\<rparr>))"
  by (simp add: market_submitted_db market_base great_review_def review_defs)

lemma market_reviewed_db:
  "market_reviewed =
     market\<lparr>submissions :=
          [\<lparr>s_id = ''submission-1'', s_projectId = ''project-1'', s_candidateId = ''user-x'',
            s_content = ''done'', s_attachmentUrl = None, s_status = SubApproved,
            s_feedback = Some ''great'', s_createdAt = Some 10, s_updatedAt = Some 20\<rparr>],
         ratings :=
          [\<lparr>r_id = ''rating-1'', r_submissionId = ''submission-1'',
            r_candidateId = ''user-x'', r_companyId = ''company-a'', r_score = 5,
            r_review = Some ''great'', r_createdAt = Some 20\<rparr>],
         payments :=
          [\<lparr>pay_id = ''payment-1'', pay_submissionId = ''submission-1'',
            pay_candidateId = ''user-x'', pay_companyId = ''company-a'', pay_amount = 25000,
            pay_status = ''paid'', pay_paidAt = Some 20, pay_createdAt = Some 20\<rparr>]\<rparr>"
  by (simp add: market_reviewed_def first_review int4_ok_def)

lemma market_rejected_db:
  "market_rejected =
     market\<lparr>companies := [company_a\<lparr>c_status := CoRejected, c_updatedAt := Some 40\<rparr>]\<rparr>"
  by (simp add: market_rejected_def market_base post_admin_companies_review_def
      requireRole_def getUser_def updateCompany_def getCompany_def Let_def)

subsection \<open>Submission review\<close>

text \<open>
  Claim C1: a review call on a Submission that is already \<open>approved\<close> or \<open>rejected\<close> is
  refused and changes nothing, so that the status leaves \<open>pending\<close> once only. The
  handler reads no status before it writes. In the run above the submission is approved,
  with one rating and one payment; company A reviews it again: the call is answered with
  success, and a second rating and a second payment are stored for the same submission.
  Reviewed again with \<open>approved = false\<close> instead, the approved submission becomes
  \<open>rejected\<close>.
\<close>

theorem second_review_settles_again:
  "map s_status (submissions market_reviewed) = [SubApproved] \<and>
   map pay_submissionId (payments market_reviewed) = [''submission-1''] \<and>
   fst (post_company_submissions_review (request_env 30 ''rating-2'' ''payment-2'')
          market_reviewed ''user-a'' ''submission-1'' (great_review 4)) = Json Success \<and>
   map pay_submissionId
     (payments (snd (post_company_submissions_review (request_env 30 ''rating-2'' ''payment-2'')
          market_reviewed ''user-a'' ''submission-1'' (great_review 4)))) =
     [''submission-1'', ''submission-1''] \<and>
   map r_score
     (ratings (snd (post_company_submissions_review (request_env 30 ''rating-2'' ''payment-2'')
          market_reviewed ''user-a'' ''submission-1'' (great_review 4)))) = [5, 4] \<and>
   fst (post_company_submissions_review (request_env 30 ''rating-2'' ''payment-2'')
          market_reviewed ''user-a'' ''submission-1''
          ((great_review 4)\<lparr>rb_approved := Val False\<rparr>)) = Json Success \<and>
   map s_status
     (submissions (snd (post_company_submissions_review (request_env 30 ''rating-2'' ''payment-2'')
          market_reviewed ''user-a'' ''submission-1''
          ((great_review 4)\<lparr>rb_approved := Val False\<rparr>)))) = [SubRejected]"
  by (simp add: market_reviewed_db market_base great_review_def review_defs)

lemma find_Some_id:
  "find (\<lambda>x. f x = i) xs = Some y \<Longrightarrow> i \<in> set (map f xs)"
  by (auto simp: find_Some_iff)

lemma approval_succeeds:
  assumes co: "getCompanyByUserId s uid = Some co"
    and sub: "getSubmission s sid = Some sub"
    and proj: "getProject s (s_projectId sub) = Some proj"
    and own: "p_companyId proj = c_id co"
    and appr: "truthy (rb_approved body)"
    and cand: "s_candidateId sub \<in> set (map u_id (users s))"
    and rat: "case rb_rating body of
                Val n \<Rightarrow> n = 0 \<or> (int4_ok n \<and> uuid e \<notin> set (map r_id (ratings s)))
              | _ \<Rightarrow> True"
    and amount: "decimal_ok (p_payment proj)"
    and fresh: "uuid2 e \<notin> set (map pay_id (payments s))"
  shows "fst (post_company_submissions_review e s uid sid body) = Json Success \<and>
         payments (snd (post_company_submissions_review e s uid sid body)) =
           payments s @
           [\<lparr>pay_id = uuid2 e, pay_submissionId = sid, pay_candidateId = s_candidateId sub,
             pay_companyId = c_id co, pay_amount = p_payment proj, pay_status = ''paid'',
             pay_paidAt = Some (now e), pay_createdAt = Some (now e)\<rparr>]"
proof -
  have "sid \<in> set (map s_id (submissions s))"
    using sub unfolding getSubmission_def by (rule find_Some_id)
  then have m1: "sid \<in> s_id ` set (submissions s)" by simp
  have "c_id co \<in> set (map c_id (companies s))"
    using co by (auto simp: getCompanyByUserId_def find_Some_iff)
  then have m2: "c_id co \<in> c_id ` set (companies s)" by simp
  have m3: "s_candidateId sub \<in> u_id ` set (users s)" using cand by simp
  have m4: "uuid2 e \<notin> pay_id ` set (payments s)" using fresh by simp
  show ?thesis
    using co sub proj own appr rat amount m1 m2 m3 m4
    by (auto simp: post_company_submissions_review_def review_rating_def updateSubmission_def
        createRating_def createPayment_def Let_def image_iff split: field.splits)
qed

lemma review_success_payment:
  assumes "post_company_submissions_review e s uid sid body = (Json Success, s')"
    and "truthy (rb_approved body)"
  shows "\<exists>sub proj pay. getSubmission s sid = Some sub \<and>
         getProject s (s_projectId sub) = Some proj \<and>
         payments s' = payments s @ [pay] \<and> pay_amount pay = p_payment proj \<and>
         pay_status pay = ''paid'' \<and> pay_paidAt pay = Some (now e) \<and>
         pay_submissionId pay = sid"
  using assms
  by (auto simp: post_company_submissions_review_def
      split: option.splits if_splits sum.splits prod.splits
      dest!: createPayment_Inr updateSubmission_frame review_rating_frame)

lemma review_rejected_payments:
  assumes "\<not> truthy (rb_approved body)"
  shows "payments (snd (post_company_submissions_review e s uid sid body)) = payments s"
  using assms
  by (auto simp: post_company_submissions_review_def
      split: option.splits if_splits sum.splits prod.splits
      dest!: updateSubmission_frame)

lemma review_failed_payments:
  assumes "fst (post_company_submissions_review e s uid sid body) \<noteq> Json Success"
  shows "payments (snd (post_company_submissions_review e s uid sid body)) = payments s"
  using assms
  by (auto simp: post_company_submissions_review_def review_rating_def updateSubmission_def
      createRating_def createPayment_def Let_def split: option.splits field.splits if_splits)

text \<open>
  Claim C3, as the code has it. A review call with \<open>approved = true\<close>, made by the owner
  of the Company that owns the project of the submission, is answered with success and
  appends exactly one Payment row (amount the project's payment, status \<open>paid\<close>, \<open>paidAt\<close>
  the instant of the review) whenever the database accepts its inserts: the candidate's
  row exists, the rating is missing, \<open>null\<close>, 0 or a 32-bit integer under an unused id,
  the project's payment fits \<open>decimal(10,2)\<close> and the payment's id is unused. Every review
  call with \<open>approved = true\<close> that is answered with success has appended exactly one such
  Payment row. A review call whose \<open>approved\<close> is not true, and a review call that is not
  answered with success, leave the payments as they were.
\<close>

theorem approval_creates_one_payment:
  "(getCompanyByUserId s uid = Some co \<and> getSubmission s sid = Some sub \<and>
    getProject s (s_projectId sub) = Some proj \<and> p_companyId proj = c_id co \<and>
    truthy (rb_approved body) \<and> s_candidateId sub \<in> set (map u_id (users s)) \<and>
    (case rb_rating body of
       Val n \<Rightarrow> n = 0 \<or> (int4_ok n \<and> uuid e \<notin> set (map r_id (ratings s)))
     | _ \<Rightarrow> True) \<and>
    decimal_ok (p_payment proj) \<and> uuid2 e \<notin> set (map pay_id (payments s)) \<longrightarrow>
      fst (post_company_submissions_review e s uid sid body) = Json Success \<and>
      payments (snd (post_company_submissions_review e s uid sid body)) =
        payments s @
        [\<lparr>pay_id = uuid2 e, pay_submissionId = sid, pay_candidateId = s_candidateId sub,
          pay_companyId = c_id co, pay_amount = p_payment proj, pay_status = ''paid'',
          pay_paidAt = Some (now e), pay_createdAt = Some (now e)\<rparr>]) \<and>
   (post_company_submissions_review e s uid sid body = (Json Success, s') \<and>
      truthy (rb_approved body) \<longrightarrow>
      (\<exists>sub proj pay. getSubmission s sid = Some sub \<and>
         getProject s (s_projectId sub) = Some proj \<and>
         payments s' = payments s @ [pay] \<and> pay_amount pay = p_payment proj \<and>
         pay_status pay = ''paid'' \<and> pay_paidAt pay = Some (now e) \<and>
         pay_submissionId pay = sid)) \<and>
   (\<not> truthy (rb_approved body) \<longrightarrow>
      payments (snd (post_company_submissions_review e s uid sid body)) = payments s) \<and>
   (fst (post_company_submissions_review e s uid sid body) \<noteq> Json Success \<longrightarrow>
      payments (snd (post_company_submissions_review e s uid sid body)) = payments s)"
proof (intro conjI)
  show "getCompanyByUserId s uid = Some co \<and> getSubmission s sid = Some sub \<and>
    getProject s (s_projectId sub) = Some proj \<and> p_companyId proj = c_id co \<and>
    truthy (rb_approved body) \<and> s_candidateId sub \<in> set (map u_id (users s)) \<and>
    (case rb_rating body of
       Val n \<Rightarrow> n = 0 \<or> (int4_ok n \<and> uuid e \<notin> set (map r_id (ratings s)))
     | _ \<Rightarrow> True) \<and>
    decimal_ok (p_payment proj) \<and> uuid2 e \<notin> set (map pay_id (payments s)) \<longrightarrow>
      fst (post_company_submissions_review e s uid sid body) = Json Success \<and>
      payments (snd (post_company_submissions_review e s uid sid body)) =
        payments s @
        [\<lparr>pay_id = uuid2 e, pay_submissionId = sid, pay_candidateId = s_candidateId sub,
          pay_companyId = c_id co, pay_amount = p_payment proj, pay_status = ''paid'',
          pay_paidAt = Some (now e), pay_createdAt = Some (now e)\<rparr>]"
    using approval_succeeds[of s uid co sid sub proj body e] by blast
next
  show "post_company_submissions_review e s uid sid body = (Json Success, s') \<and>
      truthy (rb_approved body) \<longrightarrow>
      (\<exists>sub proj pay. getSubmission s sid = Some sub \<and>
         getProject s (s_projectId sub) = Some proj \<and>
         payments s' = payments s @ [pay] \<and> pay_amount pay = p_payment proj \<and>
         pay_status pay = ''paid'' \<and> pay_paidAt pay = Some (now e) \<and>
         pay_submissionId pay = sid)"
    using review_success_payment[of e s uid sid body s'] by blast
next
  show "\<not> truthy (rb_approved body) \<longrightarrow>
      payments (snd (post_company_submissions_review e s uid sid body)) = payments s"
    using review_rejected_payments[of body e s uid sid] by blast
next
  show "fst (post_company_submissions_review e s uid sid body) \<noteq> Json Success \<longrightarrow>
      payments (snd (post_company_submissions_review e s uid sid body)) = payments s"
    using review_failed_payments[of e s uid sid body] by blast
qed

theorem approval_creates_one_payment_witness:
  "(getCompanyByUserId market_submitted ''user-a'' = Some company_a \<and>
    getSubmission market_submitted ''submission-1'' = Some pending_submission \<and>
    getProject market_submitted (s_projectId pending_submission) = Some landing_page \<and>
    p_companyId landing_page = c_id company_a \<and>
    truthy (rb_approved no_rating_review) \<and>
    s_candidateId pending_submission \<in> set (map u_id (users market_submitted)) \<and>
    (case rb_rating no_rating_review of
       Val n \<Rightarrow> n = 0 \<or> (int4_ok n \<and>
         uuid (request_env 20 ''rating-1'' ''payment-1'') \<notin> set (map r_id (ratings market_submitted)))
     | _ \<Rightarrow> True) \<and>
    decimal_ok (p_payment landing_page) \<and>
    uuid2 (request_env 20 ''rating-1'' ''payment-1'') \<notin> set (map pay_id (payments market_submitted))) \<and>
   fst (post_company_submissions_review (request_env 20 ''rating-1'' ''payment-1'')
          market_submitted ''user-a'' ''submission-1'' no_rating_review) = Json Success \<and>
   payments (snd (post_company_submissions_review (request_env 20 ''rating-1'' ''payment-1'')
          market_submitted ''user-a'' ''submission-1'' no_rating_review)) =
     [\<lparr>pay_id = ''payment-1'', pay_submissionId = ''submission-1'',
       pay_candidateId = ''user-x'', pay_companyId = ''company-a'', pay_amount = 25000,
       pay_status = ''paid'', pay_paidAt = Some 20, pay_createdAt = Some 20\<rparr>] \<and>
   post_company_submissions_review (request_env 20 ''rating-1'' ''payment-1'') market_submitted
      ''user-a'' ''submission-1'' (great_review 5) = (Json Success, market_reviewed) \<and>
   truthy (rb_approved (great_review 5)) \<and>
   (\<exists>sub proj pay. getSubmission market_submitted ''submission-1'' = Some sub \<and>
      getProject market_submitted (s_projectId sub) = Some proj \<and>
      payments market_reviewed = payments market_submitted @ [pay] \<and>
      pay_amount pay = p_payment proj \<and> pay_status pay = ''paid'' \<and>
      pay_paidAt pay = Some (now (request_env 20 ''rating-1'' ''payment-1'')) \<and>
      pay_submissionId pay = ''submission-1'') \<and>
   \<not> truthy (rb_approved ((great_review 5)\<lparr>rb_approved := Val False\<rparr>)) \<and>
   payments (snd (post_company_submissions_review (request_env 20 ''rating-1'' ''payment-1'')
      market_submitted ''user-a'' ''submission-1'' ((great_review 5)\<lparr>rb_approved := Val False\<rparr>)))
     = payments market_submitted \<and>
   fst (post_company_submissions_review (request_env 20 ''rating-1'' ''payment-1'')
      market_submitted ''user-x'' ''submission-1'' (great_review 5)) \<noteq> Json Success \<and>
   payments (snd (post_company_submissions_review (request_env 20 ''rating-1'' ''payment-1'')
      market_submitted ''user-x'' ''submission-1'' (great_review 5))) = payments market_submitted"
proof -
  let ?e = "request_env 20 ''rating-1'' ''payment-1''"
  have a: "getCompanyByUserId market_submitted ''user-a'' = Some company_a \<and>
    getSubmission market_submitted ''submission-1'' = Some pending_submission \<and>
    getProject market_submitted (s_projectId pending_submission) = Some landing_page \<and>
    p_companyId landing_page = c_id company_a \<and>
    truthy (rb_approved no_rating_review) \<and>
    s_candidateId pending_submission \<in> set (map u_id (users market_submitted)) \<and>
    (case rb_rating no_rating_review of
       Val n \<Rightarrow> n = 0 \<or> (int4_ok n \<and> uuid ?e \<notin> set (map r_id (ratings market_submitted)))
     | _ \<Rightarrow> True) \<and>
    decimal_ok (p_payment landing_page) \<and>
    uuid2 ?e \<notin> set (map pay_id (payments market_submitted))"
    by (simp add: market_submitted_db market_base pending_submission_def no_rating_review_def
        getCompanyByUserId_def getSubmission_def getProject_def decimal_ok_def)
  have b: "post_company_submissions_review ?e market_submitted ''user-a'' ''submission-1''
      (great_review 5) = (Json Success, market_reviewed) \<and> truthy (rb_approved (great_review 5))"
  proof
    show "post_company_submissions_review ?e market_submitted ''user-a'' ''submission-1''
      (great_review 5) = (Json Success, market_reviewed)"
      by (simp add: first_review market_reviewed_db int4_ok_def)
    show "truthy (rb_approved (great_review 5))"
      by (simp add: great_review_def)
  qed
  have c: "\<not> truthy (rb_approved ((great_review 5)\<lparr>rb_approved := Val False\<rparr>))"
    by simp
  have d: "fst (post_company_submissions_review ?e market_submitted ''user-x'' ''submission-1''
      (great_review 5)) \<noteq> Json Success"
    by (simp add: market_submitted_db market_base post_company_submissions_review_def
        getCompanyByUserId_def)
  have p: "payments market_submitted = []"
    by (simp add: market_submitted_db market_def)
  have v: "uuid2 ?e = ''payment-1'' \<and> now ?e = 20 \<and> s_candidateId pending_submission = ''user-x'' \<and>
      c_id company_a = ''company-a'' \<and> p_payment landing_page = 25000"
    by (simp add: request_env_def pending_submission_def company_a_def landing_page_def)
  from approval_creates_one_payment [THEN conjunct1, THEN mp, OF a]
       approval_creates_one_payment [THEN conjunct2, THEN conjunct1, THEN mp, OF b]
       approval_creates_one_payment [THEN conjunct2, THEN conjunct2, THEN conjunct1, THEN mp, OF c]
       approval_creates_one_payment [THEN conjunct2, THEN conjunct2, THEN conjunct2, THEN mp, OF d]
       a b c d p v
  show ?thesis by simp
qed

text \<open>
  Claim C3, as stated, fails: on the pending submission of the run above, company A
  approves with the rating 2147483648. The status is written first; the insert of the
  Rating is then refused, since the score does not fit the \<open>integer\<close> column; the call
  answers 500 with the submission \<open>approved\<close> and no Payment row.
\<close>

theorem approval_without_payment:
  "truthy (rb_approved (great_review 2147483648)) \<and>
   fst (post_company_submissions_review (request_env 20 ''rating-1'' ''payment-1'')
          market_submitted ''user-a'' ''submission-1'' (great_review 2147483648)) =
     Status 500 ''Failed to review submission'' \<and>
   map s_status
     (submissions (snd (post_company_submissions_review (request_env 20 ''rating-1'' ''payment-1'')
          market_submitted ''user-a'' ''submission-1'' (great_review 2147483648)))) =
     [SubApproved] \<and>
   payments (snd (post_company_submissions_review (request_env 20 ''rating-1'' ''payment-1'')
          market_submitted ''user-a'' ''submission-1'' (great_review 2147483648))) = []"
proof -
  have t: "truthy (rb_approved (great_review 2147483648))"
    by (simp add: great_review_def)
  have r: "post_company_submissions_review (request_env 20 ''rating-1'' ''payment-1'')
          market_submitted ''user-a'' ''submission-1'' (great_review 2147483648) =
      (Status 500 ''Failed to review submission'',
       market\<lparr>submissions :=
          [\<lparr>s_id = ''submission-1'', s_projectId = ''project-1'', s_candidateId = ''user-x'',
            s_content = ''done'', s_attachmentUrl = None, s_status = SubApproved,
            s_feedback = Some ''great'', s_createdAt = Some 10, s_updatedAt = Some 20\<rparr>]\<rparr>)"
    by (simp add: first_review int4_ok_def)
  show ?thesis
    using t by (simp add: r market_def)
qed

text \<open>
  Claim C8: every Rating row has a score between 1 and 5, whatever rating the request
  supplies. The handler stores the supplied number as it is: on the pending submission of
  the run above, a review with rating 7 is answered with success and stores a Rating
  whose score is 7.
\<close>

theorem rating_seven_is_stored:
  "post_company_submissions_review (request_env 20 ''rating-1'' ''payment-1'') market_submitted
      ''user-a'' ''submission-1'' (great_review 7) =
     (Json Success,
      market_reviewed\<lparr>ratings :=
        [\<lparr>r_id = ''rating-1'', r_submissionId = ''submission-1'', r_candidateId = ''user-x'',
          r_companyId = ''company-a'', r_score = 7, r_review = Some ''great'',
          r_createdAt = Some 20\<rparr>]\<rparr>)"
  by (simp add: first_review market_reviewed_db int4_ok_def)

subsection \<open>Company creation\<close>






subsection \<open>Project creation\<close>

text \<open>
  Claim C5: when the caller's Company is not \<open>approved\<close>, POST /api/company/projects is
  refused with status 403 and the database is unchanged; when the call answers with a
  project, the caller's Company is \<open>approved\<close>, and the project is the one row added, with
  status \<open>pending\<close>.
\<close>

theorem project_needs_approved_company:
  "(getCompanyByUserId s uid = Some co \<and> c_status co \<noteq> CoApproved \<longrightarrow>
      post_company_projects e s uid body =
        (Status 403 ''Company must be approved to post projects'', s)) \<and>
   (post_company_projects e s uid body = (Json proj, s') \<longrightarrow>
      p_status proj = ProjPending \<and> projects s' = projects s @ [proj] \<and>
      (\<exists>c. getCompanyByUserId s uid = Some c \<and> c_status c = CoApproved \<and>
           p_companyId proj = c_id c))"
  by (auto simp: post_company_projects_def
      split: option.splits if_splits sum.splits prod.splits dest!: createProject_Inr)

theorem project_needs_approved_company_witness:
  "getCompanyByUserId market_rejected ''user-a'' =
      Some (company_a\<lparr>c_status := CoRejected, c_updatedAt := Some 40\<rparr>) \<and>
   c_status (company_a\<lparr>c_status := CoRejected, c_updatedAt := Some 40\<rparr>) \<noteq> CoApproved \<and>
   post_company_projects (request_env 60 ''project-2'' []) market_rejected ''user-a'' landing_body =
      (Status 403 ''Company must be approved to post projects'', market_rejected) \<and>
   post_company_projects (request_env 60 ''project-2'' []) market ''user-a'' landing_body =
      (Json (landing_page\<lparr>p_id := ''project-2'', p_status := ProjPending,
               p_createdAt := Some 60, p_updatedAt := Some 60\<rparr>),
       market\<lparr>projects := [landing_page,
          landing_page\<lparr>p_id := ''project-2'', p_status := ProjPending,
               p_createdAt := Some 60, p_updatedAt := Some 60\<rparr>]\<rparr>) \<and>
   p_status (landing_page\<lparr>p_id := ''project-2'', p_status := ProjPending,
               p_createdAt := Some 60, p_updatedAt := Some 60\<rparr>) = ProjPending"
proof -
  have h1: "getCompanyByUserId market_rejected ''user-a'' =
      Some (company_a\<lparr>c_status := CoRejected, c_updatedAt := Some 40\<rparr>) \<and>
      c_status (company_a\<lparr>c_status := CoRejected, c_updatedAt := Some 40\<rparr>) \<noteq> CoApproved"
    by (simp add: market_rejected_db market_base getCompanyByUserId_def)
  have h2: "post_company_projects (request_env 60 ''project-2'' []) market ''user-a'' landing_body =
      (Json (landing_page\<lparr>p_id := ''project-2'', p_status := ProjPending,
               p_createdAt := Some 60, p_updatedAt := Some 60\<rparr>),
       market\<lparr>projects := [landing_page,
          landing_page\<lparr>p_id := ''project-2'', p_status := ProjPending,
               p_createdAt := Some 60, p_updatedAt := Some 60\<rparr>]\<rparr>)"
    by (simp add: market_base landing_body_def post_company_projects_def
        getCompanyByUserId_def createProject_def decimal_ok_def int4_ok_def Let_def)
  from project_needs_approved_company [THEN conjunct1, rule_format, OF h1]
       project_needs_approved_company [THEN conjunct2, rule_format, OF h2]
       h1 h2
  show ?thesis by simp
qed

subsection \<open>Submission creation\<close>


lemma submit_Json:
  "post_projects_submissions e s uid pid body = (Json row, s') \<Longrightarrow>
   s_status row = SubPending \<and> s_projectId row = pid \<and> s_candidateId row = uid \<and>
   s' = s\<lparr>submissions := submissions s @ [row]\<rparr> \<and>
   getSubmissionByProjectAndCandidate s pid uid = None \<and>
   (\<exists>p. getProject s pid = Some p \<and> p_status p = ProjActive)"
  by (auto simp: post_projects_submissions_def
      split: option.splits if_splits sum.splits prod.splits dest!: createSubmission_Inr)

text \<open>
  Claim C6: when the project does not exist or its status is not \<open>active\<close>, POST
  /api/projects/:id/submissions is refused with status 400, "Project not available for
  submissions", and the database is unchanged; when the call answers with a submission,
  that submission is the one row added, with status \<open>pending\<close>, and the project is
  \<open>active\<close>.
\<close>

theorem submission_needs_active_project:
  "(\<not> (\<exists>p. getProject s pid = Some p \<and> p_status p = ProjActive) \<longrightarrow>
      post_projects_submissions e s uid pid body =
        (Status 400 ''Project not available for submissions'', s)) \<and>
   (post_projects_submissions e s uid pid body = (Json row, s') \<longrightarrow>
      s_status row = SubPending \<and> submissions s' = submissions s @ [row] \<and>
      (\<exists>p. getProject s pid = Some p \<and> p_status p = ProjActive))"
proof (rule conjI; rule impI)
  assume "\<not> (\<exists>p. getProject s pid = Some p \<and> p_status p = ProjActive)"
  then show "post_projects_submissions e s uid pid body =
        (Status 400 ''Project not available for submissions'', s)"
    by (auto simp: post_projects_submissions_def split: option.splits)
next
  assume a: "post_projects_submissions e s uid pid body = (Json row, s')"
  from submit_Json[OF a]
  show "s_status row = SubPending \<and> submissions s' = submissions s @ [row] \<and>
      (\<exists>p. getProject s pid = Some p \<and> p_status p = ProjActive)"
    by auto
qed

theorem submission_needs_active_project_witness:
  "\<not> (\<exists>p. getProject market ''project-9'' = Some p \<and> p_status p = ProjActive) \<and>
   post_projects_submissions (request_env 10 ''submission-1'' []) market
      ''user-x'' ''project-9'' done_body =
     (Status 400 ''Project not available for submissions'', market) \<and>
   \<not> (\<exists>p. getProject (market\<lparr>projects := [landing_page\<lparr>p_status := ProjCancelled\<rparr>]\<rparr>)
           ''project-1'' = Some p \<and> p_status p = ProjActive) \<and>
   post_projects_submissions (request_env 10 ''submission-1'' [])
      (market\<lparr>projects := [landing_page\<lparr>p_status := ProjCancelled\<rparr>]\<rparr>)
      ''user-x'' ''project-1'' done_body =
     (Status 400 ''Project not available for submissions'',
      market\<lparr>projects := [landing_page\<lparr>p_status := ProjCancelled\<rparr>]\<rparr>) \<and>
   post_projects_submissions (request_env 10 ''submission-1'' []) market
      ''user-x'' ''project-1'' done_body =
     (Json \<lparr>s_id = ''submission-1'', s_projectId = ''project-1'', s_candidateId = ''user-x'',
        s_content = ''done'', s_attachmentUrl = None, s_status = SubPending, s_feedback = None,
        s_createdAt = Some 10, s_updatedAt = Some 10\<rparr>, market_submitted) \<and>
   submissions market_submitted = submissions market @
     [\<lparr>s_id = ''submission-1'', s_projectId = ''project-1'', s_candidateId = ''user-x'',
        s_content = ''done'', s_attachmentUrl = None, s_status = SubPending, s_feedback = None,
        s_createdAt = Some 10, s_updatedAt = Some 10\<rparr>]"
proof -
  have h1: "\<not> (\<exists>p. getProject market ''project-9'' = Some p \<and> p_status p = ProjActive)"
    by (simp add: market_base getProject_def)
  have h2: "\<not> (\<exists>p. getProject (market\<lparr>projects := [landing_page\<lparr>p_status := ProjCancelled\<rparr>]\<rparr>)
           ''project-1'' = Some p \<and> p_status p = ProjActive)"
    by (auto simp: market_base getProject_def)
  have h3: "post_projects_submissions (request_env 10 ''submission-1'' []) market
      ''user-x'' ''project-1'' done_body =
     (Json \<lparr>s_id = ''submission-1'', s_projectId = ''project-1'', s_candidateId = ''user-x'',
        s_content = ''done'', s_attachmentUrl = None, s_status = SubPending, s_feedback = None,
        s_createdAt = Some 10, s_updatedAt = Some 10\<rparr>, market_submitted)"
    by (simp add: submit_done market_submitted_db)
  from submission_needs_active_project [THEN conjunct1, rule_format, OF h1]
       submission_needs_active_project [THEN conjunct1, rule_format, OF h2]
       submission_needs_active_project [THEN conjunct2, rule_format, OF h3]
       h1 h2 h3
  show ?thesis by simp
qed











subsection \<open>Admin review\<close>

text \<open>
  Claim C7, as the code has it: for a caller whom the role gate admits as admin, a
  company review call answers with success and sets the status of the Company with the
  given id to \<open>approved\<close> or \<open>rejected\<close> as the decision says, and a project review call
  sets the status of the Project with the given id to \<open>active\<close> or \<open>cancelled\<close>, each
  whatever the status was before; the status of every other row is unchanged.
\<close>

theorem admin_review_sets_status:
  assumes "requireRole [Admin] s sub = Inr admin"
  shows "fst (post_admin_companies_review e s sub cid approved) = Json Success \<and>
     map c_status (companies (snd (post_admin_companies_review e s sub cid approved))) =
       map (\<lambda>c. if c_id c = cid then (if truthy approved then CoApproved else CoRejected)
                 else c_status c) (companies s) \<and>
     fst (post_admin_projects_review e s sub pid approved) = Json Success \<and>
     map p_status (projects (snd (post_admin_projects_review e s sub pid approved))) =
       map (\<lambda>p. if p_id p = pid then (if truthy approved then ProjActive else ProjCancelled)
                 else p_status p) (projects s)"
  using assms
  by (simp add: post_admin_companies_review_def post_admin_projects_review_def
      updateCompany_def updateProject_def Let_def)

theorem admin_review_sets_status_witness:
  "requireRole [Admin] market (Some ''user-r'') = Inr admin_r \<and>
   fst (post_admin_companies_review (request_env 40 [] []) market (Some ''user-r'')
          ''company-a'' (Val True)) = Json Success \<and>
   map c_status (companies (snd (post_admin_companies_review (request_env 40 [] []) market
          (Some ''user-r'') ''company-a'' (Val True)))) = [CoApproved] \<and>
   fst (post_admin_projects_review (request_env 40 [] []) market (Some ''user-r'')
          ''project-1'' (Val True)) = Json Success \<and>
   map p_status (projects (snd (post_admin_projects_review (request_env 40 [] []) market
          (Some ''user-r'') ''project-1'' (Val True)))) = [ProjActive]"
proof -
  have h: "requireRole [Admin] market (Some ''user-r'') = Inr admin_r"
    by (simp add: requireRole_def getUser_def market_base)
  from admin_review_sets_status [OF h, of "request_env 40 [] []" "''company-a''" "Val True"
      "''project-1''"] h
  show ?thesis by (simp add: market_base)
qed

text \<open>
  Claim C7, as stated, fails: company A is \<open>approved\<close> and its project is \<open>active\<close>; an
  admin review with \<open>approved = false\<close> turns the company to \<open>rejected\<close>, and the project
  to \<open>cancelled\<close>.
\<close>

theorem reviewed_status_changes_again:
  "map c_status (companies market) = [CoApproved] \<and>
   map c_status (companies (snd (post_admin_companies_review (request_env 40 [] []) market
          (Some ''user-r'') ''company-a'' (Val False)))) = [CoRejected] \<and>
   map p_status (projects market) = [ProjActive] \<and>
   map p_status (projects (snd (post_admin_projects_review (request_env 40 [] []) market
          (Some ''user-r'') ''project-1'' (Val False)))) = [ProjCancelled]"
  by (simp add: market_base post_admin_companies_review_def post_admin_projects_review_def
      requireRole_def getUser_def updateCompany_def updateProject_def getCompany_def
      getProject_def Let_def)

subsection \<open>Candidate statistics\<close>

text \<open>
  Claim C9: for a candidate with no Rating row, the candidate statistics have
  \<open>averageRating = 0\<close>. \<open>getCandidateStats\<close> is a total function of the database: it
  returns the statistics for every database and candidate.
\<close>

theorem no_ratings_average_zero:
  assumes "filter (\<lambda>r. r_candidateId r = c) (ratings s) = []"
  shows "averageRating (getCandidateStats s c) = 0"
  using assms by (simp add: getCandidateStats_def sql_avg_def)

theorem no_ratings_average_zero_witness:
  "filter (\<lambda>r. r_candidateId r = ''user-a'') (ratings market_reviewed) = [] \<and>
   averageRating (getCandidateStats market_reviewed ''user-a'') = 0"
proof -
  have h: "filter (\<lambda>r. r_candidateId r = ''user-a'') (ratings market_reviewed) = []"
    by (simp add: market_reviewed_db)
  from no_ratings_average_zero [OF h] h show ?thesis by simp
qed

subsection \<open>Profile update\<close>

text \<open>
  Claim C10: PATCH /api/profile leaves every table but \<open>users\<close> as it was, keeps the rows
  of \<open>users\<close> in number and order, leaves every row of another user as it was, and in the
  caller's row changes nothing but \<open>firstName\<close>, \<open>lastName\<close>, \<open>bio\<close>, \<open>skills\<close>,
  \<open>experience\<close>, \<open>portfolioUrl\<close> and \<open>updatedAt\<close>: putting the old values of these seven
  back gives the old row. In particular \<open>id\<close>, \<open>email\<close> and \<open>role\<close> are unchanged, whatever
  the body holds.
\<close>

theorem profile_update_frame:
  assumes "patch_profile e s uid body = (resp, s')"
  shows "companies s' = companies s \<and> projects s' = projects s \<and>
    submissions s' = submissions s \<and> ratings s' = ratings s \<and> payments s' = payments s \<and>
    list_all2 (\<lambda>u u'.
        u'\<lparr>u_firstName := u_firstName u, u_lastName := u_lastName u, u_bio := u_bio u,
           u_skills := u_skills u, u_experience := u_experience u,
           u_portfolioUrl := u_portfolioUrl u, u_updatedAt := u_updatedAt u\<rparr> = u \<and>
        u_id u' = u_id u \<and> u_email u' = u_email u \<and> u_role u' = u_role u \<and>
        (u_id u \<noteq> uid \<longrightarrow> u' = u))
      (users s) (users s')"
  using assms
  by (auto simp: patch_profile_def updateUserProfile_def Let_def list_all2_map2
      apply_user_updates_def intro!: list_all2_refl)

theorem profile_update_frame_witness:
  "patch_profile (request_env 70 [] []) market ''user-x'' escalation =
     (Json (Some (candidate_x\<lparr>u_firstName := Some ''Xavier'', u_skills := Some [''css''],
                               u_updatedAt := Some 70\<rparr>)),
      market\<lparr>users := [owner_a,
         candidate_x\<lparr>u_firstName := Some ''Xavier'', u_skills := Some [''css''],
                      u_updatedAt := Some 70\<rparr>, admin_r]\<rparr>) \<and>
   map u_role (users (market\<lparr>users := [owner_a,
         candidate_x\<lparr>u_firstName := Some ''Xavier'', u_skills := Some [''css''],
                      u_updatedAt := Some 70\<rparr>, admin_r]\<rparr>)) = [CompanyRole, Candidate, Admin] \<and>
   list_all2 (\<lambda>u u'.
        u'\<lparr>u_firstName := u_firstName u, u_lastName := u_lastName u, u_bio := u_bio u,
           u_skills := u_skills u, u_experience := u_experience u,
           u_portfolioUrl := u_portfolioUrl u, u_updatedAt := u_updatedAt u\<rparr> = u \<and>
        u_id u' = u_id u \<and> u_email u' = u_email u \<and> u_role u' = u_role u \<and>
        (u_id u \<noteq> ''user-x'' \<longrightarrow> u' = u))
      (users market)
      (users (market\<lparr>users := [owner_a,
         candidate_x\<lparr>u_firstName := Some ''Xavier'', u_skills := Some [''css''],
                      u_updatedAt := Some 70\<rparr>, admin_r]\<rparr>))"
proof -
  have h: "patch_profile (request_env 70 [] []) market ''user-x'' escalation =
     (Json (Some (candidate_x\<lparr>u_firstName := Some ''Xavier'', u_skills := Some [''css''],
                               u_updatedAt := Some 70\<rparr>)),
      market\<lparr>users := [owner_a,
         candidate_x\<lparr>u_firstName := Some ''Xavier'', u_skills := Some [''css''],
                      u_updatedAt := Some 70\<rparr>, admin_r]\<rparr>)"
    by (simp add: market_base escalation_def patch_profile_def updateUserProfile_def
        apply_user_updates_def getUser_def Let_def)
  have r: "map u_role (users (market\<lparr>users := [owner_a,
         candidate_x\<lparr>u_firstName := Some ''Xavier'', u_skills := Some [''css''],
                      u_updatedAt := Some 70\<rparr>, admin_r]\<rparr>)) = [CompanyRole, Candidate, Admin]"
    by (simp add: market_base)
  from profile_update_frame [OF h] h r show ?thesis by blast
qed

end
